theory Spec2Isabelle
  imports Main
begin

section \<open>The Scheme widget of canvas.schemes.js\<close>

text \<open>
  A shallow embedding of \<^verbatim>\<open>src/canvas.schemes.js\<close>. The closure variables of the
  \<^verbatim>\<open>Scheme\<close> constructor become the fields of one record, every function that
  assigns to them takes the record and returns it updated, and the parts of the host
  document the widget touches (the canvas element, its 2D context, the list items and
  their parent elements) are fields of the same record.

  Numbers are \<open>int\<close>: label coordinates are what \<^verbatim>\<open>parseInt\<close> returns, event
  offsets are documented as integers, and padding and radius are pixel counts. Names and
  part numbers are strings, on which \<^verbatim>\<open>==\<close> and \<^verbatim>\<open>===\<close> agree. The code
  never compares two area objects, only their names and coordinates, so areas are values:
  an area of a later render pass with the same fields is the same area.

  The canvas is the sequence of the painting calls made on its context, each with the
  styles in force at the call; \<open>canvas_width\<close> and \<open>canvas_height\<close> are what reading
  \<^verbatim>\<open>canvas.width\<close> and \<^verbatim>\<open>canvas.height\<close> gives. The colours and the font of
  the configuration are taken to be values that the context accepts, and a style is
  recorded as the string assigned.

  A call of the host that throws leaves the handler with the assignments made so far in
  place: a function that can throw returns \<open>Raised\<close> with the exception and the widget
  at that moment, \<open>Done\<close> with the widget otherwise.
\<close>

subsection \<open>Data\<close>

text \<open>The object built by \<^verbatim>\<open>new Area(name, x, y, radius)\<close>.\<close>

record area =
  area_name :: string
  area_left :: int
  area_top :: int
  area_right :: int
  area_bottom :: int
  area_x :: int
  area_y :: int
  area_radius :: int

definition Area :: "string \<Rightarrow> int \<Rightarrow> int \<Rightarrow> int \<Rightarrow> area" where
  "Area name x y radius =
     \<lparr> area_name = name,
       area_left = x - radius,
       area_top = y - radius,
       area_right = x + radius,
       area_bottom = y + radius,
       area_x = x,
       area_y = y,
       area_radius = radius \<rparr>"

text \<open>
  One element of the parsed label array; the two coordinates are the integers that
  \<^verbatim>\<open>parseInt(label['label_x1'])\<close> and \<^verbatim>\<open>parseInt(label['label_y1'])\<close> yield.
\<close>

record label =
  sLabel :: string
  label_x1 :: int
  label_y1 :: int

record config =
  padding :: int
  bgColor :: string
  fontFamily :: string
  fontSize :: string
  fontColor :: string
  areaRadius :: int
  areaColor :: string
  scale :: int

definition default_config :: config where
  "default_config =
     \<lparr> padding = 30,
       bgColor = ''#fff'',
       fontFamily = ''Arial'',
       fontSize = ''12px'',
       fontColor = ''#555555'',
       areaRadius = 10,
       areaColor = ''#a52a2a'',
       scale = 1 \<rparr>"

text \<open>The \<^verbatim>\<open>params\<close> object: a key that is absent is \<open>None\<close>.\<close>

record params =
  p_padding :: "int option"
  p_bgColor :: "string option"
  p_fontFamily :: "string option"
  p_fontSize :: "string option"
  p_fontColor :: "string option"
  p_areaRadius :: "int option"
  p_areaColor :: "string option"
  p_scale :: "int option"

text \<open>
  The drawing state of the 2D context that the widget assigns, and the calls that paint,
  each recorded with the style it is painted in.
\<close>

record context2d =
  fillStyle :: string
  strokeStyle :: string
  font :: string
  textAlign :: string
  textBaseline :: string
  lineWidth :: int

datatype paint =
    ClearRect int int int int
  | FillRect string int int int int
  | DrawImage int int
  | FillText string int int string string
  | StrokeArc int int int int string

datatype dom_exception = IndexSizeError | SyntaxError

datatype 'a outcome = Done 'a | Raised dom_exception 'a

fun state_of :: "'a outcome \<Rightarrow> 'a" where
  "state_of (Done s) = s"
| "state_of (Raised e s) = s"

fun raised :: "'a outcome \<Rightarrow> dom_exception option" where
  "raised (Done s) = None"
| "raised (Raised e s) = Some e"

text \<open>
  The widget. \<open>list_items\<close> are the elements of the list that carry a
  \<^verbatim>\<open>data-part-number\<close> attribute, in document order, each with the value of the
  attribute and the identity of its parent element; \<open>element_className\<close> is the
  \<^verbatim>\<open>className\<close> of every element. \<open>other_selectors\<close> is the host's answer to
  \<^verbatim>\<open>list.querySelectorAll\<close> for the selector built from a part number that is not
  plain text of a quoted attribute value (see \<open>querySelectorAll_parents\<close> below): from
  the part number and the class names of the canvas and of the elements at that moment,
  \<open>None\<close> when the call throws a SyntaxError, otherwise the parents of the elements
  returned. \<open>hoveredArea\<close> is \<open>None\<close> for the empty object \<^verbatim>\<open>{}\<close>, the only
  value of the variable that has no keys.
\<close>

record scheme =
  canvas_width :: int
  canvas_height :: int
  canvas_className :: string
  list_items :: "(string \<times> nat) list"
  element_className :: "nat \<Rightarrow> string"
  other_selectors :: "string \<Rightarrow> string \<Rightarrow> (nat \<Rightarrow> string) \<Rightarrow> nat list option"
  ctx :: context2d
  ctx_saved :: "context2d list"
  painted :: "paint list"
  labels :: "label list"
  schemeImg_width :: int
  schemeImg_height :: int
  areas :: "area list"
  selectedAreas :: "area list"
  hoveredArea :: "area option"
  config :: config

subsection \<open>The utility object\<close>

text \<open>\<^verbatim>\<open>s.split(' ')\<close> and \<^verbatim>\<open>a.join(' ')\<close>.\<close>

fun split_space :: "string \<Rightarrow> string list" where
  "split_space [] = [[]]"
| "split_space (c # cs) =
     (if c = CHR '' '' then [] # split_space cs
      else (case split_space cs of
              [] \<Rightarrow> [[c]]
            | w # ws \<Rightarrow> (c # w) # ws))"

fun join_space :: "string list \<Rightarrow> string" where
  "join_space [] = []"
| "join_space [w] = w"
| "join_space (w # v # ws) = w @ CHR '' '' # join_space (v # ws)"

definition addClass :: "string \<Rightarrow> string \<Rightarrow> string" where
  "addClass className cls =
     (let classes = split_space className;
          classes = (if cls \<notin> set classes then classes @ [cls] else classes)
      in join_space classes)"

text \<open>The loop of \<^verbatim>\<open>removeClass\<close>: an element equal to \<open>cls\<close> is spliced out and
  the index stays, any other element is kept and the index moves on.\<close>

fun removeClass_loop :: "string \<Rightarrow> string list \<Rightarrow> string list" where
  "removeClass_loop cls [] = []"
| "removeClass_loop cls (c # classes) =
     (if c = cls then removeClass_loop cls classes
      else c # removeClass_loop cls classes)"

definition removeClass :: "string \<Rightarrow> string \<Rightarrow> string" where
  "removeClass className cls = join_space (removeClass_loop cls (split_space className))"

definition toggleClass :: "string \<Rightarrow> string \<Rightarrow> string" where
  "toggleClass className cls =
     (let classes = split_space className
      in if cls \<notin> set classes then addClass className cls else removeClass className cls)"

definition inRange :: "int \<Rightarrow> int \<Rightarrow> int \<Rightarrow> bool" where
  "inRange val mn mx = (val \<ge> mn \<and> val \<le> mx)"

subsection \<open>Construction\<close>

fun override :: "'a option \<Rightarrow> 'a \<Rightarrow> 'a" where
  "override None d = d"
| "override (Some v) d = v"

definition setConfig :: "params \<Rightarrow> config \<Rightarrow> config" where
  "setConfig p c =
     \<lparr> padding = override (p_padding p) (padding c),
       bgColor = override (p_bgColor p) (bgColor c),
       fontFamily = override (p_fontFamily p) (fontFamily c),
       fontSize = override (p_fontSize p) (fontSize c),
       fontColor = override (p_fontColor p) (fontColor c),
       areaRadius = override (p_areaRadius p) (areaRadius c),
       areaColor = override (p_areaColor p) (areaColor c),
       scale = override (p_scale p) (scale c) \<rparr>"

text \<open>
  The host document as the constructor finds it, and the image once it is loaded.
\<close>

record document =
  doc_canvas_width :: int
  doc_canvas_height :: int
  doc_canvas_className :: string
  doc_list_items :: "(string \<times> nat) list"
  doc_element_className :: "nat \<Rightarrow> string"
  doc_other_selectors :: "string \<Rightarrow> string \<Rightarrow> (nat \<Rightarrow> string) \<Rightarrow> nat list option"
  doc_context :: context2d
  doc_image_width :: int
  doc_image_height :: int

text \<open>
  \<^verbatim>\<open>new Scheme(schemeID, listID, src, labelsJSON, params)\<close>, with the two elements
  looked up, the label array parsed, and \<open>None\<close> for a \<^verbatim>\<open>params\<close> that is not an
  object.
\<close>

definition Scheme :: "document \<Rightarrow> label list \<Rightarrow> params option \<Rightarrow> scheme" where
  "Scheme doc lbls ps =
     \<lparr> canvas_width = doc_canvas_width doc,
       canvas_height = doc_canvas_height doc,
       canvas_className = doc_canvas_className doc,
       list_items = doc_list_items doc,
       element_className = doc_element_className doc,
       other_selectors = doc_other_selectors doc,
       ctx = doc_context doc,
       ctx_saved = [],
       painted = [],
       labels = lbls,
       schemeImg_width = doc_image_width doc,
       schemeImg_height = doc_image_height doc,
       areas = [],
       selectedAreas = [],
       hoveredArea = None,
       config = (case ps of None \<Rightarrow> default_config | Some p \<Rightarrow> setConfig p default_config) \<rparr>"

subsection \<open>Hit testing and hovering\<close>

definition coordsInArea :: "int \<Rightarrow> int \<Rightarrow> area \<Rightarrow> bool" where
  "coordsInArea x y a =
     (inRange x (area_left a) (area_right a) \<and> inRange y (area_top a) (area_bottom a))"

text \<open>The scan of \<^verbatim>\<open>areaHovered\<close>: the first area that matches, where the loop breaks.\<close>

fun areaHovered_scan :: "int \<Rightarrow> int \<Rightarrow> area list \<Rightarrow> area option" where
  "areaHovered_scan ex ey [] = None"
| "areaHovered_scan ex ey (a # as) =
     (if coordsInArea ex ey a then Some a else areaHovered_scan ex ey as)"

definition areaHovered :: "int \<Rightarrow> int \<Rightarrow> scheme \<Rightarrow> scheme" where
  "areaHovered ex ey s =
     (case hoveredArea s of
        None \<Rightarrow>
          (case areaHovered_scan ex ey (areas s) of
             None \<Rightarrow> s
           | Some a \<Rightarrow>
               s\<lparr> hoveredArea := Some a,
                  canvas_className := addClass (canvas_className s) ''pointer'' \<rparr>)
      | Some h \<Rightarrow>
          (if \<not> coordsInArea ex ey h
           then s\<lparr> hoveredArea := None,
                   canvas_className := removeClass (canvas_className s) ''pointer'' \<rparr>
           else s))"

subsection \<open>Rendering\<close>

text \<open>
  \<^verbatim>\<open>canvas.width\<close> and \<^verbatim>\<open>canvas.height\<close> are unsigned long attributes that
  reflect the content attributes: the number assigned is taken modulo \<open>2 ^ 32\<close>, and
  a result above \<open>2 ^ 31 - 1\<close> (as for a negative number) gives the default, 300 for
  the width and 150 for the height. Every assignment resets the context to its default
  state and empties the stack of saved states.
\<close>

definition canvas_dimension :: "int \<Rightarrow> int \<Rightarrow> int" where
  "canvas_dimension dflt v =
     (let u = v mod 4294967296 in if u \<le> 2147483647 then u else dflt)"

definition default_context2d :: context2d where
  "default_context2d =
     \<lparr> fillStyle = ''#000000'',
       strokeStyle = ''#000000'',
       font = ''10px sans-serif'',
       textAlign = ''start'',
       textBaseline = ''alphabetic'',
       lineWidth = 1 \<rparr>"

definition setCanvasSize :: "int \<Rightarrow> int \<Rightarrow> scheme \<Rightarrow> scheme" where
  "setCanvasSize w h s =
     (let s = s\<lparr> canvas_width := canvas_dimension 300 w,
                 ctx := default_context2d, ctx_saved := [] \<rparr>
      in s\<lparr> canvas_height := canvas_dimension 150 h,
            ctx := default_context2d, ctx_saved := [] \<rparr>)"

definition saveArea :: "string \<Rightarrow> int \<Rightarrow> int \<Rightarrow> int \<Rightarrow> scheme \<Rightarrow> scheme" where
  "saveArea name x y radius s = s\<lparr> areas := areas s @ [Area name x y radius] \<rparr>"

definition ctx_save :: "scheme \<Rightarrow> scheme" where
  "ctx_save s = s\<lparr> ctx_saved := ctx s # ctx_saved s \<rparr>"

definition ctx_restore :: "scheme \<Rightarrow> scheme" where
  "ctx_restore s =
     (case ctx_saved s of
        [] \<Rightarrow> s
      | c # cs \<Rightarrow> s\<lparr> ctx := c, ctx_saved := cs \<rparr>)"

definition drawLabel :: "string \<Rightarrow> int \<Rightarrow> int \<Rightarrow> scheme \<Rightarrow> scheme" where
  "drawLabel text x y s =
     (let s = ctx_save s;
          s = s\<lparr> ctx := (ctx s)\<lparr> textBaseline := ''middle'' \<rparr> \<rparr>;
          s = s\<lparr> ctx := (ctx s)\<lparr> textAlign := ''center'' \<rparr> \<rparr>;
          s = s\<lparr> ctx := (ctx s)\<lparr> font := fontSize (config s) @ '' '' @ fontFamily (config s) \<rparr> \<rparr>;
          s = s\<lparr> ctx := (ctx s)\<lparr> fillStyle := fontColor (config s) \<rparr> \<rparr>;
          s = s\<lparr> painted := painted s @ [FillText text x y (font (ctx s)) (fillStyle (ctx s))] \<rparr>;
          s = saveArea text x y (areaRadius (config s)) s
      in ctx_restore s)"

text \<open>The loop of \<^verbatim>\<open>drawLabels\<close> over the label array, which it does not change.\<close>

fun drawLabels_loop :: "label list \<Rightarrow> scheme \<Rightarrow> scheme" where
  "drawLabels_loop [] s = s"
| "drawLabels_loop (l # ls) s =
     (let text = sLabel l;
          x = label_x1 l + padding (config s);
          y = label_y1 l + padding (config s)
      in drawLabels_loop ls (drawLabel text x y s))"

definition drawLabels :: "scheme \<Rightarrow> scheme" where
  "drawLabels s = drawLabels_loop (labels s) s"

text \<open>
  \<^verbatim>\<open>ctx.arc\<close> throws an IndexSizeError for a negative radius; the assignments and the
  stroke after it are then not reached.
\<close>

definition drawArea :: "int \<Rightarrow> int \<Rightarrow> int \<Rightarrow> scheme \<Rightarrow> scheme outcome" where
  "drawArea x y radius s =
     (if radius < 0 then Raised IndexSizeError s
      else
        (let s = s\<lparr> ctx := (ctx s)\<lparr> lineWidth := 1 \<rparr> \<rparr>;
             s = s\<lparr> ctx := (ctx s)\<lparr> strokeStyle := areaColor (config s) \<rparr> \<rparr>
         in Done (s\<lparr> painted := painted s @
                     [StrokeArc x y radius (lineWidth (ctx s)) (strokeStyle (ctx s))] \<rparr>)))"

fun drawSelectedAreas_loop :: "area list \<Rightarrow> scheme \<Rightarrow> scheme outcome" where
  "drawSelectedAreas_loop [] s = Done s"
| "drawSelectedAreas_loop (a # as) s =
     (case drawArea (area_x a) (area_y a) (area_radius a) s of
        Done s' \<Rightarrow> drawSelectedAreas_loop as s'
      | Raised e s' \<Rightarrow> Raised e s')"

definition drawSelectedAreas :: "scheme \<Rightarrow> scheme outcome" where
  "drawSelectedAreas s = drawSelectedAreas_loop (selectedAreas s) s"

definition drawScheme :: "scheme \<Rightarrow> scheme outcome" where
  "drawScheme s =
     (let w = schemeImg_width s + padding (config s) * 2;
          h = schemeImg_height s + padding (config s) * 2;
          s = setCanvasSize w h s;
          s = s\<lparr> ctx := (ctx s)\<lparr> fillStyle := bgColor (config s) \<rparr> \<rparr>;
          s = s\<lparr> painted := painted s @
                 [FillRect (fillStyle (ctx s)) 0 0 (canvas_width s) (canvas_height s)] \<rparr>;
          s = s\<lparr> painted := painted s @ [DrawImage (padding (config s)) (padding (config s))] \<rparr>;
          s = drawLabels s
      in drawSelectedAreas s)"

definition redrawScheme :: "scheme \<Rightarrow> scheme outcome" where
  "redrawScheme s =
     (let s = s\<lparr> painted := painted s @ [ClearRect 0 0 (canvas_width s) (canvas_height s)] \<rparr>;
          s = s\<lparr> areas := [] \<rparr>
      in drawScheme s)"

subsection \<open>Highlighting\<close>

fun findAllAreas_loop :: "string \<Rightarrow> area list \<Rightarrow> area list" where
  "findAllAreas_loop name [] = []"
| "findAllAreas_loop name (a # as) =
     (if area_name a = name then a # findAllAreas_loop name as
      else findAllAreas_loop name as)"

definition findAllAreas :: "string \<Rightarrow> scheme \<Rightarrow> area list" where
  "findAllAreas name s = findAllAreas_loop name (areas s)"

text \<open>
  The loop of \<^verbatim>\<open>removeSelectedAreas\<close>, which splices out of \<^verbatim>\<open>selectedAreas\<close>
  every area of that name: the first component is what stays in the array, the second
  the array of removed areas that is returned.
\<close>

fun removeSelectedAreas_loop :: "string \<Rightarrow> area list \<Rightarrow> area list \<times> area list" where
  "removeSelectedAreas_loop name [] = ([], [])"
| "removeSelectedAreas_loop name (a # as) =
     (let (kept, removed) = removeSelectedAreas_loop name as
      in if area_name a = name then (kept, a # removed) else (a # kept, removed))"

definition removeSelectedAreas :: "string \<Rightarrow> scheme \<Rightarrow> scheme \<times> area list" where
  "removeSelectedAreas name s =
     (let (kept, removed) = removeSelectedAreas_loop name (selectedAreas s)
      in (s\<lparr> selectedAreas := kept \<rparr>, removed))"

text \<open>
  \<^verbatim>\<open>list.querySelectorAll('[data-part-number="' + partNumber + '"]')\<close>, here
  already with the parent element that \<^verbatim>\<open>toggleItemHighlight\<close> takes from each
  element returned. The part number is put between the quotes as it is. When it has no
  double quote, backslash, line feed, carriage return, form feed or null character, it is
  the text of the quoted value, and the selector matches the elements whose attribute is
  the part number, in document order. Any other part number ends or alters the quoted
  value: the selector may be invalid, and the call throws a SyntaxError, or it may be
  another selector; what the host answers then is \<open>other_selectors\<close>.
\<close>

definition attribute_text :: "string \<Rightarrow> bool" where
  "attribute_text partNumber =
     list_all (\<lambda>c. c \<noteq> CHR 0x22 \<and> c \<noteq> CHR 0x5C \<and> c \<noteq> CHR 0x0A \<and> c \<noteq> CHR 0x0D \<and>
                    c \<noteq> CHR 0x0C \<and> c \<noteq> CHR 0x00) partNumber"

fun attribute_parents :: "string \<Rightarrow> (string \<times> nat) list \<Rightarrow> nat list" where
  "attribute_parents partNumber [] = []"
| "attribute_parents partNumber ((n, parent) # items) =
     (if n = partNumber then parent # attribute_parents partNumber items
      else attribute_parents partNumber items)"

definition querySelectorAll_parents :: "string \<Rightarrow> scheme \<Rightarrow> nat list option" where
  "querySelectorAll_parents partNumber s =
     (if attribute_text partNumber then Some (attribute_parents partNumber (list_items s))
      else other_selectors s partNumber (canvas_className s) (element_className s))"

fun toggleItemHighlight_loop ::
  "(string \<Rightarrow> string \<Rightarrow> string) \<Rightarrow> nat list \<Rightarrow> (nat \<Rightarrow> string) \<Rightarrow> (nat \<Rightarrow> string)" where
  "toggleItemHighlight_loop func [] cn = cn"
| "toggleItemHighlight_loop func (item # items) cn =
     toggleItemHighlight_loop func items (cn(item := func (cn item) ''selected''))"

definition toggleItemHighlight ::
  "string \<Rightarrow> (string \<Rightarrow> string \<Rightarrow> string) \<Rightarrow> scheme \<Rightarrow> scheme outcome" where
  "toggleItemHighlight partNumber func s =
     (case querySelectorAll_parents partNumber s of
        None \<Rightarrow> Raised SyntaxError s
      | Some items \<Rightarrow>
          Done (s\<lparr> element_className :=
                     toggleItemHighlight_loop func items (element_className s) \<rparr>))"

text \<open>
  An exception of \<^verbatim>\<open>toggleItemHighlight\<close> leaves \<^verbatim>\<open>toggleHighlight\<close> after the
  selected areas are updated and before the redraw.
\<close>

definition toggleHighlight :: "string \<Rightarrow> scheme \<Rightarrow> scheme outcome" where
  "toggleHighlight partNumber s =
     (let foundAreas = findAllAreas partNumber s
      in if foundAreas \<noteq> [] then
           (let (s, removed) = removeSelectedAreas partNumber s
            in if removed \<noteq> [] then
                 (case toggleItemHighlight partNumber removeClass s of
                    Raised e s \<Rightarrow> Raised e s
                  | Done s \<Rightarrow> redrawScheme s)
               else
                 (let s = s\<lparr> selectedAreas := selectedAreas s @ foundAreas \<rparr>
                  in case toggleItemHighlight partNumber addClass s of
                       Raised e s \<Rightarrow> Raised e s
                     | Done s \<Rightarrow> redrawScheme s))
         else Done s)"

definition itemClicked :: "string \<Rightarrow> scheme \<Rightarrow> scheme outcome" where
  "itemClicked partNumber s = toggleHighlight partNumber s"

subsection \<open>What the loops compute\<close>

text \<open>
  The areas and the texts of one pass of \<^verbatim>\<open>drawLabels\<close> over a label array, and the
  strokes of \<^verbatim>\<open>drawSelectedAreas\<close> over an array of areas.
\<close>

definition renderAreas :: "config \<Rightarrow> label list \<Rightarrow> area list" where
  "renderAreas c ls =
     map (\<lambda>l. Area (sLabel l) (label_x1 l + padding c) (label_y1 l + padding c) (areaRadius c)) ls"

definition renderTexts :: "config \<Rightarrow> label list \<Rightarrow> paint list" where
  "renderTexts c ls =
     map (\<lambda>l. FillText (sLabel l) (label_x1 l + padding c) (label_y1 l + padding c)
                 (fontSize c @ '' '' @ fontFamily c) (fontColor c)) ls"

lemma findAllAreas_loop_filter:
  "findAllAreas_loop n as = filter (\<lambda>a. area_name a = n) as"
  by (induction as) auto

lemma removeSelectedAreas_loop_filter:
  "removeSelectedAreas_loop n as =
     (filter (\<lambda>a. area_name a \<noteq> n) as, filter (\<lambda>a. area_name a = n) as)"
  by (induction as) auto

lemma drawLabel_eq:
  "drawLabel t x y s =
     s\<lparr> painted := painted s @
           [FillText t x y (fontSize (config s) @ '' '' @ fontFamily (config s)) (fontColor (config s))],
        areas := areas s @ [Area t x y (areaRadius (config s))] \<rparr>"
  by (simp add: drawLabel_def ctx_save_def ctx_restore_def saveArea_def Let_def)

lemma drawLabels_loop_eq:
  "drawLabels_loop ls s =
     s\<lparr> painted := painted s @ renderTexts (config s) ls,
        areas := areas s @ renderAreas (config s) ls \<rparr>"
  by (induction ls arbitrary: s) (simp_all add: drawLabel_eq renderTexts_def renderAreas_def Let_def)

definition strokes :: "string \<Rightarrow> area list \<Rightarrow> paint list" where
  "strokes color as = map (\<lambda>a. StrokeArc (area_x a) (area_y a) (area_radius a) 1 color) as"

text \<open>Drawing the selected areas changes the context and the painted calls only.\<close>

definition only_painted :: "scheme \<Rightarrow> scheme \<Rightarrow> bool" where
  "only_painted s t = (t = s\<lparr> ctx := ctx t, painted := painted t \<rparr>)"

lemma only_painted_refl: "only_painted s s"
  by (simp add: only_painted_def)

lemma only_painted_trans: "only_painted s t \<Longrightarrow> only_painted t u \<Longrightarrow> only_painted s u"
  by (cases s, cases t, cases u) (simp add: only_painted_def)

lemma drawArea_only_painted: "only_painted s (state_of (drawArea x y r s))"
  by (simp add: only_painted_def drawArea_def Let_def)

lemma drawSelectedAreas_loop_only_painted:
  "only_painted s (state_of (drawSelectedAreas_loop as s))"
proof (induction as arbitrary: s)
  case Nil
  show ?case by (simp add: only_painted_refl)
next
  case (Cons a as)
  show ?case
  proof (cases "drawArea (area_x a) (area_y a) (area_radius a) s")
    case (Done s')
    then have "only_painted s s'"
      using drawArea_only_painted [of s "area_x a" "area_y a" "area_radius a"] by simp
    with Cons [of s'] Done show ?thesis
      by (auto intro: only_painted_trans)
  next
    case (Raised e s')
    then show ?thesis
      using drawArea_only_painted [of s "area_x a" "area_y a" "area_radius a"] by simp
  qed
qed


text \<open>The widget when \<^verbatim>\<open>drawScheme\<close> reaches its call of \<^verbatim>\<open>drawSelectedAreas\<close>.\<close>

definition beforeSelected :: "scheme \<Rightarrow> scheme" where
  "beforeSelected s =
     s\<lparr> canvas_width := canvas_dimension 300 (schemeImg_width s + padding (config s) * 2),
        canvas_height := canvas_dimension 150 (schemeImg_height s + padding (config s) * 2),
        ctx := default_context2d\<lparr> fillStyle := bgColor (config s) \<rparr>,
        ctx_saved := [],
        painted := painted s @
          [FillRect (bgColor (config s)) 0 0
             (canvas_dimension 300 (schemeImg_width s + padding (config s) * 2))
             (canvas_dimension 150 (schemeImg_height s + padding (config s) * 2)),
           DrawImage (padding (config s)) (padding (config s))] @
          renderTexts (config s) (labels s),
        areas := areas s @ renderAreas (config s) (labels s) \<rparr>"

lemma drawScheme_eq: "drawScheme s = drawSelectedAreas (beforeSelected s)"
  by (cases s)
    (simp add: drawScheme_def beforeSelected_def setCanvasSize_def drawLabels_def
      drawLabels_loop_eq Let_def)

lemma only_painted_fields:
  assumes "only_painted s t"
  shows "canvas_width t = canvas_width s" "canvas_height t = canvas_height s"
    "canvas_className t = canvas_className s" "list_items t = list_items s"
    "element_className t = element_className s" "other_selectors t = other_selectors s"
    "ctx_saved t = ctx_saved s"
    "labels t = labels s" "schemeImg_width t = schemeImg_width s"
    "schemeImg_height t = schemeImg_height s" "areas t = areas s"
    "selectedAreas t = selectedAreas s" "hoveredArea t = hoveredArea s"
    "config t = config s"
proof -
  from assms have eq: "t = s\<lparr> ctx := ctx t, painted := painted t \<rparr>"
    by (simp add: only_painted_def)
  show "canvas_width t = canvas_width s" by (subst eq) simp
  show "canvas_height t = canvas_height s" by (subst eq) simp
  show "canvas_className t = canvas_className s" by (subst eq) simp
  show "list_items t = list_items s" by (subst eq) simp
  show "element_className t = element_className s" by (subst eq) simp
  show "other_selectors t = other_selectors s" by (subst eq) simp
  show "ctx_saved t = ctx_saved s" by (subst eq) simp
  show "labels t = labels s" by (subst eq) simp
  show "schemeImg_width t = schemeImg_width s" by (subst eq) simp
  show "schemeImg_height t = schemeImg_height s" by (subst eq) simp
  show "areas t = areas s" by (subst eq) simp
  show "selectedAreas t = selectedAreas s" by (subst eq) simp
  show "hoveredArea t = hoveredArea s" by (subst eq) simp
  show "config t = config s" by (subst eq) simp
qed

lemmas drawSelectedAreas_frame =
  only_painted_fields [OF drawSelectedAreas_loop_only_painted]

lemma drawScheme_fields:
  "areas (state_of (drawScheme s)) = areas s @ renderAreas (config s) (labels s)"
  "selectedAreas (state_of (drawScheme s)) = selectedAreas s"
  "config (state_of (drawScheme s)) = config s"
  "labels (state_of (drawScheme s)) = labels s"
  "list_items (state_of (drawScheme s)) = list_items s"
  "element_className (state_of (drawScheme s)) = element_className s"
  "other_selectors (state_of (drawScheme s)) = other_selectors s"
  "hoveredArea (state_of (drawScheme s)) = hoveredArea s"
  "canvas_className (state_of (drawScheme s)) = canvas_className s"
  "schemeImg_width (state_of (drawScheme s)) = schemeImg_width s"
  "schemeImg_height (state_of (drawScheme s)) = schemeImg_height s"
  "ctx_saved (state_of (drawScheme s)) = []"
  "canvas_width (state_of (drawScheme s)) =
     canvas_dimension 300 (schemeImg_width s + padding (config s) * 2)"
  "canvas_height (state_of (drawScheme s)) =
     canvas_dimension 150 (schemeImg_height s + padding (config s) * 2)"
  by (simp_all add: drawScheme_eq drawSelectedAreas_def drawSelectedAreas_frame beforeSelected_def)

lemma redrawScheme_fields:
  "areas (state_of (redrawScheme s)) = renderAreas (config s) (labels s)"
  "selectedAreas (state_of (redrawScheme s)) = selectedAreas s"
  "config (state_of (redrawScheme s)) = config s"
  "labels (state_of (redrawScheme s)) = labels s"
  "list_items (state_of (redrawScheme s)) = list_items s"
  "element_className (state_of (redrawScheme s)) = element_className s"
  "other_selectors (state_of (redrawScheme s)) = other_selectors s"
  "hoveredArea (state_of (redrawScheme s)) = hoveredArea s"
  "canvas_className (state_of (redrawScheme s)) = canvas_className s"
  "schemeImg_width (state_of (redrawScheme s)) = schemeImg_width s"
  "schemeImg_height (state_of (redrawScheme s)) = schemeImg_height s"
  "ctx_saved (state_of (redrawScheme s)) = []"
  "canvas_width (state_of (redrawScheme s)) =
     canvas_dimension 300 (schemeImg_width s + padding (config s) * 2)"
  "canvas_height (state_of (redrawScheme s)) =
     canvas_dimension 150 (schemeImg_height s + padding (config s) * 2)"
  by (simp_all add: redrawScheme_def drawScheme_fields Let_def)

lemma drawSelectedAreas_loop_painted:
  "painted (state_of (drawSelectedAreas_loop as s)) =
     painted s @ strokes (areaColor (config s)) (takeWhile (\<lambda>a. 0 \<le> area_radius a) as)"
proof (induction as arbitrary: s)
  case Nil
  show ?case by (simp add: strokes_def)
next
  case (Cons a as)
  show ?case
  proof (cases "area_radius a < 0")
    case True
    then show ?thesis by (simp add: drawArea_def strokes_def)
  next
    case False
    then show ?thesis
      by (simp add: drawArea_def strokes_def Let_def Cons)
  qed
qed

lemma drawSelectedAreas_loop_Done:
  "(\<exists>s'. drawSelectedAreas_loop as s = Done s') \<longleftrightarrow> (\<forall>a\<in>set as. 0 \<le> area_radius a)"
proof (induction as arbitrary: s)
  case Nil
  show ?case by simp
next
  case (Cons a as)
  show ?case
  proof (cases "area_radius a < 0")
    case True
    then show ?thesis by (auto simp: drawArea_def)
  next
    case False
    then show ?thesis
      by (simp add: drawArea_def Let_def Cons)
  qed
qed

lemma redrawScheme_painted:
  "painted (state_of (redrawScheme s)) =
     painted s @
     [ClearRect 0 0 (canvas_width s) (canvas_height s),
      FillRect (bgColor (config s)) 0 0
        (canvas_dimension 300 (schemeImg_width s + padding (config s) * 2))
        (canvas_dimension 150 (schemeImg_height s + padding (config s) * 2)),
      DrawImage (padding (config s)) (padding (config s))] @
     renderTexts (config s) (labels s) @
     strokes (areaColor (config s)) (takeWhile (\<lambda>a. 0 \<le> area_radius a) (selectedAreas s))"
  by (simp add: redrawScheme_def drawScheme_eq drawSelectedAreas_def
      drawSelectedAreas_loop_painted beforeSelected_def Let_def)

lemma redrawScheme_Done:
  "(\<exists>s'. redrawScheme s = Done s') \<longleftrightarrow> (\<forall>a\<in>set (selectedAreas s). 0 \<le> area_radius a)"
  by (simp add: redrawScheme_def drawScheme_eq drawSelectedAreas_def
      drawSelectedAreas_loop_Done beforeSelected_def Let_def)

lemma raised_drawSelectedAreas_loop:
  "raised (drawSelectedAreas_loop as s) =
     (if \<forall>a\<in>set as. 0 \<le> area_radius a then None else Some IndexSizeError)"
proof (induction as arbitrary: s)
  case Nil
  show ?case by simp
next
  case (Cons a as)
  show ?case
  proof (cases "area_radius a < 0")
    case True
    then show ?thesis by (auto simp: drawArea_def)
  next
    case False
    then show ?thesis
      by (simp add: drawArea_def Let_def Cons)
  qed
qed

lemma raised_redrawScheme:
  "raised (redrawScheme s) =
     (if \<forall>a\<in>set (selectedAreas s). 0 \<le> area_radius a then None else Some IndexSizeError)"
  by (simp add: redrawScheme_def drawScheme_eq drawSelectedAreas_def
      raised_drawSelectedAreas_loop beforeSelected_def Let_def)


text \<open>
  The widget when \<^verbatim>\<open>toggleHighlight\<close> reaches its call of
  \<^verbatim>\<open>toggleItemHighlight\<close>, the function it passes, and the widget when it reaches
  its call of \<^verbatim>\<open>redrawScheme\<close> after a query that returned \<open>ps\<close>.
\<close>

definition reselected :: "string \<Rightarrow> scheme \<Rightarrow> scheme" where
  "reselected n s =
     s\<lparr> selectedAreas :=
          (if filter (\<lambda>a. area_name a = n) (selectedAreas s) \<noteq> []
           then filter (\<lambda>a. area_name a \<noteq> n) (selectedAreas s)
           else selectedAreas s @ filter (\<lambda>a. area_name a = n) (areas s)) \<rparr>"

definition toggle_func :: "string \<Rightarrow> scheme \<Rightarrow> string \<Rightarrow> string \<Rightarrow> string" where
  "toggle_func n s =
     (if filter (\<lambda>a. area_name a = n) (selectedAreas s) \<noteq> [] then removeClass else addClass)"

definition toggled :: "string \<Rightarrow> nat list \<Rightarrow> scheme \<Rightarrow> scheme" where
  "toggled n ps s =
     (reselected n s)\<lparr> element_className :=
        toggleItemHighlight_loop (toggle_func n s) ps (element_className s) \<rparr>"

lemma filter_none_keeps_all:
  "filter (\<lambda>a. area_name a = n) as = [] \<Longrightarrow> filter (\<lambda>a. area_name a \<noteq> n) as = as"
  by (induction as) (auto split: if_splits)

lemma querySelectorAll_parents_selectedAreas:
  "querySelectorAll_parents n (s\<lparr> selectedAreas := sel \<rparr>) = querySelectorAll_parents n s"
  by (simp add: querySelectorAll_parents_def)

lemma toggleHighlight_eq:
  "toggleHighlight n s =
     (if filter (\<lambda>a. area_name a = n) (areas s) = [] then Done s
      else case querySelectorAll_parents n s of
             None \<Rightarrow> Raised SyntaxError (reselected n s)
           | Some ps \<Rightarrow> redrawScheme (toggled n ps s))"
  by (simp add: toggleHighlight_def findAllAreas_def findAllAreas_loop_filter
      removeSelectedAreas_def removeSelectedAreas_loop_filter toggleItemHighlight_def
      toggled_def reselected_def toggle_func_def Let_def filter_none_keeps_all
      querySelectorAll_parents_selectedAreas split: option.splits)

lemma reselected_fields:
  "areas (reselected n s) = areas s" "config (reselected n s) = config s"
  "labels (reselected n s) = labels s" "list_items (reselected n s) = list_items s"
  "element_className (reselected n s) = element_className s"
  "other_selectors (reselected n s) = other_selectors s"
  "hoveredArea (reselected n s) = hoveredArea s"
  "canvas_className (reselected n s) = canvas_className s"
  "schemeImg_width (reselected n s) = schemeImg_width s"
  "schemeImg_height (reselected n s) = schemeImg_height s"
  "painted (reselected n s) = painted s"
  "canvas_width (reselected n s) = canvas_width s"
  "canvas_height (reselected n s) = canvas_height s"
  by (simp_all add: reselected_def)

lemma toggled_fields:
  "areas (toggled n ps s) = areas s" "config (toggled n ps s) = config s"
  "labels (toggled n ps s) = labels s" "list_items (toggled n ps s) = list_items s"
  "other_selectors (toggled n ps s) = other_selectors s"
  "hoveredArea (toggled n ps s) = hoveredArea s"
  "canvas_className (toggled n ps s) = canvas_className s"
  "schemeImg_width (toggled n ps s) = schemeImg_width s"
  "schemeImg_height (toggled n ps s) = schemeImg_height s"
  "selectedAreas (toggled n ps s) = selectedAreas (reselected n s)"
  "painted (toggled n ps s) = painted s"
  "canvas_width (toggled n ps s) = canvas_width s"
  "canvas_height (toggled n ps s) = canvas_height s"
  by (simp_all add: toggled_def reselected_def)

lemma toggleHighlight_labels: "labels (state_of (toggleHighlight n s)) = labels s"
  by (simp add: toggleHighlight_eq redrawScheme_fields toggled_fields reselected_fields
      split: option.splits)

lemma toggleHighlight_config: "config (state_of (toggleHighlight n s)) = config s"
  by (simp add: toggleHighlight_eq redrawScheme_fields toggled_fields reselected_fields
      split: option.splits)


lemma toggleHighlight_other_selectors:
  "other_selectors (state_of (toggleHighlight n s)) = other_selectors s"
  by (simp add: toggleHighlight_eq redrawScheme_fields toggled_fields reselected_fields
      split: option.splits)

lemma toggleHighlight_canvas_className:
  "canvas_className (state_of (toggleHighlight n s)) = canvas_className s"
  by (simp add: toggleHighlight_eq redrawScheme_fields toggled_fields reselected_fields
      split: option.splits)

lemma toggleHighlight_areas:
  "areas (state_of (toggleHighlight n s)) =
     (if filter (\<lambda>a. area_name a = n) (areas s) = [] \<or> querySelectorAll_parents n s = None
      then areas s
      else renderAreas (config s) (labels s))"
  by (auto simp: toggleHighlight_eq redrawScheme_fields toggled_fields reselected_fields
      split: option.splits)

lemma toggleHighlight_selectedAreas:
  "selectedAreas (state_of (toggleHighlight n s)) =
     (if filter (\<lambda>a. area_name a = n) (areas s) = [] then selectedAreas s
      else if filter (\<lambda>a. area_name a = n) (selectedAreas s) \<noteq> []
      then filter (\<lambda>a. area_name a \<noteq> n) (selectedAreas s)
      else selectedAreas s @ filter (\<lambda>a. area_name a = n) (areas s))"
  by (simp add: toggleHighlight_eq redrawScheme_fields toggled_fields reselected_def
      split: option.splits)


lemma length_renderAreas: "length (renderAreas c ls) = length ls"
  by (simp add: renderAreas_def)

lemma toggleHighlight_measure:
  "toggleHighlight n s = Done s' \<Longrightarrow>
     max (length (areas s')) (length (labels s')) \<le> max (length (areas s)) (length (labels s))"
  using toggleHighlight_areas [of n s] toggleHighlight_labels [of n s]
  by (auto simp: length_renderAreas split: if_splits)

subsection \<open>The click handler\<close>

text \<open>
  The loop of \<^verbatim>\<open>areaClicked\<close> reads the variable \<^verbatim>\<open>areas\<close> anew at every
  iteration, and \<^verbatim>\<open>toggleHighlight\<close> assigns a new array to it, so the loop is over
  the index and the widget. An exception of the toggle leaves the handler. It ends because
  a toggle never makes the array longer than the longer of itself and the label array.
\<close>

function areaClicked_loop :: "int \<Rightarrow> int \<Rightarrow> nat \<Rightarrow> scheme \<Rightarrow> scheme outcome" where
  "areaClicked_loop ex ey i s =
     (if i < length (areas s) then
        (let area = areas s ! i
         in if coordsInArea ex ey area then
              (case toggleHighlight (area_name area) s of
                 Done s' \<Rightarrow> areaClicked_loop ex ey (i + 1) s'
               | Raised e s' \<Rightarrow> Raised e s')
            else areaClicked_loop ex ey (i + 1) s)
      else Done s)"
  by pat_completeness auto
termination
proof (relation "measure (\<lambda>(ex, ey, i, s). max (length (areas s)) (length (labels s)) - i)")
  show "wf (measure (\<lambda>(ex, ey, i, s). max (length (areas s)) (length (labels s)) - i))"
    by simp
next
  fix ex ey :: int and i :: nat and s s' :: scheme and area :: area
  assume i: "i < length (areas s)" and a: "area = areas s ! i"
    and t: "toggleHighlight (area_name area) s = Done s'"
  from toggleHighlight_measure [OF t] i
  have "max (length (areas s')) (length (labels s')) - (i + 1)
          < max (length (areas s)) (length (labels s)) - i"
    by linarith
  then show "((ex, ey, i + 1, s'), (ex, ey, i, s))
          \<in> measure (\<lambda>(ex, ey, i, s). max (length (areas s)) (length (labels s)) - i)"
    by simp
next
  fix ex ey :: int and i :: nat and s :: scheme and area :: area
  assume "i < length (areas s)"
  then show "((ex, ey, i + 1, s), (ex, ey, i, s))
          \<in> measure (\<lambda>(ex, ey, i, s). max (length (areas s)) (length (labels s)) - i)"
    by simp
qed

declare areaClicked_loop.simps [simp del]

definition areaClicked :: "int \<Rightarrow> int \<Rightarrow> scheme \<Rightarrow> scheme outcome" where
  "areaClicked ex ey s = areaClicked_loop ex ey 0 s"



subsection \<open>Events and reachable widgets\<close>

text \<open>
  The listeners that \<^verbatim>\<open>setEventsListeners\<close> registers. The image is given its source
  once, so its load event comes once; the handlers of the other events leave a widget
  that has no areas yet as it is, so the first render starts from the widget as
  constructed.
\<close>

datatype event =
    ImageLoaded
  | CanvasClick int int
  | CanvasMouseMove int int
  | ItemClick string

fun handle :: "event \<Rightarrow> scheme \<Rightarrow> scheme outcome" where
  "handle ImageLoaded s = drawScheme s"
| "handle (CanvasClick ex ey) s = areaClicked ex ey s"
| "handle (CanvasMouseMove ex ey) s = Done (areaHovered ex ey s)"
| "handle (ItemClick partNumber) s = itemClicked partNumber s"

inductive reachable :: "scheme \<Rightarrow> bool" where
  constructed: "reachable (Scheme doc lbls ps)"
| image_loaded: "reachable (state_of (drawScheme (Scheme doc lbls ps)))"
| canvas_click: "reachable s \<Longrightarrow> reachable (state_of (areaClicked ex ey s))"
| canvas_mousemove: "reachable s \<Longrightarrow> reachable (areaHovered ex ey s)"
| item_click: "reachable s \<Longrightarrow> reachable (state_of (itemClicked partNumber s))"

lemma before_first_render:
  "areaClicked ex ey (Scheme doc lbls ps) = Done (Scheme doc lbls ps)"
  "areaHovered ex ey (Scheme doc lbls ps) = Scheme doc lbls ps"
  "itemClicked partNumber (Scheme doc lbls ps) = Done (Scheme doc lbls ps)"
  by (simp_all add: areaClicked_def areaClicked_loop.simps areaHovered_def itemClicked_def
      toggleHighlight_eq Scheme_def)

text \<open>
  What holds of every reachable widget: the areas are those of the labels (or none before
  the first render), and the selected areas are among them, all of a name or none.
\<close>

definition rendered :: "scheme \<Rightarrow> bool" where
  "rendered s =
     ((areas s = [] \<or> areas s = renderAreas (config s) (labels s)) \<and>
      set (selectedAreas s) \<subseteq> set (areas s) \<and>
      (\<forall>a\<in>set (selectedAreas s). \<forall>b\<in>set (areas s).
         area_name b = area_name a \<longrightarrow> b \<in> set (selectedAreas s)))"

lemma rendered_toggleHighlight:
  assumes "rendered s"
  shows "rendered (state_of (toggleHighlight n s))"
proof (cases "filter (\<lambda>a. area_name a = n) (areas s) = []")
  case True
  with assms show ?thesis by (simp add: toggleHighlight_eq)
next
  case False
  then have ne: "areas s \<noteq> []" by auto
  with assms have ar: "areas s = renderAreas (config s) (labels s)"
    by (auto simp: rendered_def)
  from assms have sub: "set (selectedAreas s) \<subseteq> set (areas s)"
    and closed: "\<And>a b. a \<in> set (selectedAreas s) \<Longrightarrow> b \<in> set (areas s) \<Longrightarrow>
                   area_name b = area_name a \<Longrightarrow> b \<in> set (selectedAreas s)"
    by (auto simp: rendered_def)
  let ?t = "state_of (toggleHighlight n s)"
  have a': "areas ?t = areas s"
    using False ar by (simp add: toggleHighlight_areas)
  have c': "config ?t = config s" and l': "labels ?t = labels s"
    by (simp_all add: toggleHighlight_config toggleHighlight_labels)
  show ?thesis
  proof (cases "filter (\<lambda>a. area_name a = n) (selectedAreas s) = []")
    case True
    with False have sel: "selectedAreas ?t = selectedAreas s @ filter (\<lambda>a. area_name a = n) (areas s)"
      by (simp add: toggleHighlight_selectedAreas)
    show ?thesis
      unfolding rendered_def a' c' l' sel
      using ar sub closed by auto
  next
    case nonempty: False
    with False have sel: "selectedAreas ?t = filter (\<lambda>a. area_name a \<noteq> n) (selectedAreas s)"
      by (simp add: toggleHighlight_selectedAreas)
    show ?thesis
      unfolding rendered_def a' c' l' sel
      using ar sub closed by auto
  qed
qed

lemma rendered_areaClicked_loop:
  "rendered s \<Longrightarrow> rendered (state_of (areaClicked_loop ex ey i s))"
proof (induction ex ey i s rule: areaClicked_loop.induct)
  case (1 ex ey i s)
  show ?case
  proof (cases "i < length (areas s)")
    case False
    with "1.prems" show ?thesis by (simp add: areaClicked_loop.simps)
  next
    case True
    show ?thesis
    proof (cases "coordsInArea ex ey (areas s ! i)")
      case False
      with True "1.IH"(2) "1.prems" show ?thesis
        by (simp add: areaClicked_loop.simps [of ex ey i s])
    next
      case hit: True
      from "1.prems" have r: "rendered (state_of (toggleHighlight (area_name (areas s ! i)) s))"
        by (rule rendered_toggleHighlight)
      show ?thesis
      proof (cases "toggleHighlight (area_name (areas s ! i)) s")
        case (Done s')
        with r have "rendered s'" by simp
        with "1.IH"(1) [OF True refl hit Done] True hit Done show ?thesis
          by (simp add: areaClicked_loop.simps [of ex ey i s])
      next
        case (Raised e s')
        with r True hit show ?thesis
          by (simp add: areaClicked_loop.simps [of ex ey i s])
      qed
    qed
  qed
qed

lemma rendered_areaHovered: "rendered s \<Longrightarrow> rendered (areaHovered ex ey s)"
  by (auto simp: rendered_def areaHovered_def split: option.splits)

lemma rendered_Scheme: "rendered (Scheme doc lbls ps)"
  by (simp add: rendered_def Scheme_def)

lemma rendered_first: "rendered (state_of (drawScheme (Scheme doc lbls ps)))"
  by (simp add: rendered_def drawScheme_fields) (simp add: Scheme_def)

lemma reachable_rendered: "reachable s \<Longrightarrow> rendered s"
proof (induction rule: reachable.induct)
  case (constructed doc lbls ps)
  show ?case by (rule rendered_Scheme)
next
  case (image_loaded doc lbls ps)
  show ?case by (rule rendered_first)
next
  case (canvas_click s ex ey)
  then show ?case by (simp add: areaClicked_def rendered_areaClicked_loop)
next
  case (canvas_mousemove s ex ey)
  then show ?case by (simp add: rendered_areaHovered)
next
  case (item_click s partNumber)
  then show ?case by (simp add: itemClicked_def rendered_toggleHighlight)
qed

subsection \<open>Class names\<close>











subsection \<open>The list items after a toggle\<close>




subsection \<open>Hit testing: the bounding box\<close>

lemma inRange_iff: "inRange v mn mx \<longleftrightarrow> mn \<le> v \<and> v \<le> mx"
  by (auto simp: inRange_def)

text \<open>
  Claim C1. A point matches an area exactly when it lies in the closed box
  \<open>left \<le> x \<le> right\<close>, \<open>top \<le> y \<le> bottom\<close>; the corner \<open>(198, 205)\<close> of the box
  of radius 10 around \<open>(188, 195)\<close> matches, though it is farther than 10 from the
  centre.
\<close>

theorem coordsInArea_bounding_box:
  "coordsInArea x y a =
     (area_left a \<le> x \<and> x \<le> area_right a \<and> area_top a \<le> y \<and> y \<le> area_bottom a)
   \<and> coordsInArea 198 205 (Area ''1'' 188 195 10)
   \<and> (198 - 188) * (198 - 188) + (205 - 195) * (205 - 195) > (10::int) * 10"
  by (auto simp: coordsInArea_def inRange_def Area_def)

subsection \<open>The example of the README\<close>

text \<open>
  Two labels of the same name, a list with one item for part \<open>1\<close> whose parent is
  element 0, the default configuration, and an image of 400 by 600. All its part numbers
  are plain text, so \<open>other_selectors\<close> is never consulted.
\<close>

definition readme_labels :: "label list" where
  "readme_labels =
     [\<lparr> sLabel = ''1'', label_x1 = 158, label_y1 = 165 \<rparr>,
      \<lparr> sLabel = ''1'', label_x1 = 49, label_y1 = 540 \<rparr>]"

definition readme_document :: document where
  "readme_document =
     \<lparr> doc_canvas_width = 300,
       doc_canvas_height = 150,
       doc_canvas_className = [],
       doc_list_items = [(''1'', 0)],
       doc_element_className = (\<lambda>e. []),
       doc_other_selectors = (\<lambda>n c cn. None),
       doc_context =
         \<lparr> fillStyle = ''#000000'', strokeStyle = ''#000000'', font = ''10px sans-serif'',
           textAlign = ''start'', textBaseline = ''alphabetic'', lineWidth = 1 \<rparr>,
       doc_image_width = 400,
       doc_image_height = 600 \<rparr>"

definition readme_widget :: scheme where
  "readme_widget = state_of (drawScheme (Scheme readme_document readme_labels None))"

lemma readme_widget_fields:
  "areas readme_widget = [Area ''1'' 188 195 10, Area ''1'' 79 570 10]"
  "selectedAreas readme_widget = []"
  "labels readme_widget = readme_labels"
  "config readme_widget = default_config"
  "list_items readme_widget = [(''1'', 0)]"
  "element_className readme_widget = (\<lambda>e. [])"
  "hoveredArea readme_widget = None"
  by (simp_all add: readme_widget_def drawScheme_fields Scheme_def readme_document_def
      readme_labels_def renderAreas_def default_config_def)

lemma reachable_readme_widget: "reachable readme_widget"
  unfolding readme_widget_def by (rule reachable.image_loaded)

subsection \<open>A name that no area bears\<close>

text \<open>
  Claim C8. When no area of the current array bears the name, \<^verbatim>\<open>toggleHighlight\<close>
  returns with the widget as it was: the selected areas, the class names of the list, the
  canvas and the calls painted on it are all unchanged, so nothing was redrawn.
\<close>

theorem toggleHighlight_unknown_name:
  "\<forall>a\<in>set (areas s). area_name a \<noteq> n \<Longrightarrow> toggleHighlight n s = Done s"
  by (simp add: toggleHighlight_eq filter_empty_conv)

text \<open>The widget of the README example has no area named \<open>2\<close>.\<close>

theorem toggleHighlight_unknown_name_witness:
  "areas readme_widget = [Area ''1'' 188 195 10, Area ''1'' 79 570 10]
   \<and> toggleHighlight ''2'' readme_widget = Done readme_widget"
  using toggleHighlight_unknown_name [of readme_widget "''2''"]
  by (simp add: readme_widget_fields Area_def)

subsection \<open>Areas and labels\<close>

text \<open>
  Claim C6. After \<^verbatim>\<open>redrawScheme\<close> the area array is the one built from the label
  array, one area for each label in order, whatever the array held before; its length is
  the number of labels.
\<close>

theorem redrawScheme_rebuilds_areas:
  "areas (state_of (redrawScheme s)) =
     map (\<lambda>l. Area (sLabel l) (label_x1 l + padding (config s)) (label_y1 l + padding (config s))
                (areaRadius (config s))) (labels s)
   \<and> length (areas (state_of (redrawScheme s))) = length (labels s)"
  by (simp add: redrawScheme_fields renderAreas_def)

text \<open>
  Claim C4. A pass of \<^verbatim>\<open>drawLabels\<close> appends, for each label in order, the area
  whose centre is \<open>(label_x1 + padding, label_y1 + padding)\<close>, the point at which the
  text of the label is painted in the same pass, and whose box reaches the configured
  radius from the centre on every side; these are the areas that \<^verbatim>\<open>drawScheme\<close>
  leaves.
\<close>

theorem drawLabels_area_at_text:
  "areas (drawLabels s) = areas s @
     map (\<lambda>l. \<lparr> area_name = sLabel l,
                area_left = label_x1 l + padding (config s) - areaRadius (config s),
                area_top = label_y1 l + padding (config s) - areaRadius (config s),
                area_right = label_x1 l + padding (config s) + areaRadius (config s),
                area_bottom = label_y1 l + padding (config s) + areaRadius (config s),
                area_x = label_x1 l + padding (config s),
                area_y = label_y1 l + padding (config s),
                area_radius = areaRadius (config s) \<rparr>) (labels s)
   \<and> painted (drawLabels s) = painted s @
     map (\<lambda>l. FillText (sLabel l) (label_x1 l + padding (config s)) (label_y1 l + padding (config s))
                (fontSize (config s) @ '' '' @ fontFamily (config s)) (fontColor (config s)))
       (labels s)
   \<and> areas (state_of (drawScheme s)) = areas (drawLabels s)"
  by (simp add: drawLabels_def drawLabels_loop_eq renderAreas_def renderTexts_def Area_def
      drawScheme_fields)

subsection \<open>Hovering\<close>

lemma areaHovered_scan_find: "areaHovered_scan ex ey as = find (coordsInArea ex ey) as"
  by (induction as) auto

text \<open>
  Claim C7. The hovered area is one area or none. A mousemove with none hovered makes the
  first area of the array that contains the point the hovered one (none if no area
  does); a mousemove with an area hovered keeps that area while the point is in its box
  and clears it otherwise. So an event never replaces one hovered area by another.
\<close>

theorem areaHovered_one_step:
  "hoveredArea (areaHovered ex ey s) =
     (case hoveredArea s of
        None \<Rightarrow> find (coordsInArea ex ey) (areas s)
      | Some h \<Rightarrow> if coordsInArea ex ey h then Some h else None)
   \<and> (case (hoveredArea s, hoveredArea (areaHovered ex ey s)) of
        (Some h, Some h') \<Rightarrow> h' = h
      | _ \<Rightarrow> True)"
  by (simp add: areaHovered_def areaHovered_scan_find split: option.splits)

subsection \<open>Redrawing keeps the selection\<close>

lemma redraws_selectedAreas:
  "selectedAreas (((\<lambda>s. state_of (redrawScheme s)) ^^ k) s) = selectedAreas s"
  by (induction k) (simp_all add: redrawScheme_fields)

text \<open>
  A widget built with \<^verbatim>\<open>{areaRadius: -5}\<close> for the README document, after the first
  render and a click on the list item of part \<open>1\<close>.
\<close>

definition negative_radius_params :: params where
  "negative_radius_params =
     \<lparr> p_padding = None, p_bgColor = None, p_fontFamily = None, p_fontSize = None,
       p_fontColor = None, p_areaRadius = Some (- 5), p_areaColor = None, p_scale = None \<rparr>"

definition negative_radius_widget :: scheme where
  "negative_radius_widget =
     state_of (itemClicked ''1''
       (state_of (drawScheme (Scheme readme_document readme_labels (Some negative_radius_params)))))"

lemma reachable_negative_radius_widget: "reachable negative_radius_widget"
  unfolding negative_radius_widget_def
  by (rule reachable.item_click) (rule reachable.image_loaded)

lemma negative_radius_widget_fields:
  "selectedAreas negative_radius_widget = [Area ''1'' 188 195 (- 5), Area ''1'' 79 570 (- 5)]"
  "labels negative_radius_widget = readme_labels"
  "config negative_radius_widget = default_config\<lparr> areaRadius := - 5 \<rparr>"
  "canvas_width negative_radius_widget = 460" "canvas_height negative_radius_widget = 660"
  "schemeImg_width negative_radius_widget = 400" "schemeImg_height negative_radius_widget = 600"
  by (simp_all add: negative_radius_widget_def itemClicked_def toggleHighlight_eq
      redrawScheme_fields toggled_fields reselected_def drawScheme_fields Scheme_def
      querySelectorAll_parents_def attribute_text_def
      readme_document_def readme_labels_def renderAreas_def default_config_def
      negative_radius_params_def setConfig_def Area_def canvas_dimension_def)

text \<open>
  Claim C9, as stated, fails. In that widget both areas of part \<open>1\<close> are selected; a
  redraw keeps them selected, but \<^verbatim>\<open>ctx.arc\<close> throws for the first of them, and the
  pass ends after the texts with no circle stroked.
\<close>

theorem redrawScheme_strokes_counterexample:
  "reachable negative_radius_widget
   \<and> selectedAreas negative_radius_widget = [Area ''1'' 188 195 (- 5), Area ''1'' 79 570 (- 5)]
   \<and> selectedAreas (state_of (redrawScheme negative_radius_widget)) =
       selectedAreas negative_radius_widget
   \<and> raised (redrawScheme negative_radius_widget) = Some IndexSizeError
   \<and> painted (state_of (redrawScheme negative_radius_widget)) =
       painted negative_radius_widget @
       [ClearRect 0 0 460 660,
        FillRect ''#fff'' 0 0 460 660,
        DrawImage 30 30,
        FillText ''1'' 188 195 ''12px Arial'' ''#555555'',
        FillText ''1'' 79 570 ''12px Arial'' ''#555555'']"
proof (intro conjI)
  show "reachable negative_radius_widget"
    by (rule reachable_negative_radius_widget)
  show "selectedAreas negative_radius_widget =
      [Area ''1'' 188 195 (- 5), Area ''1'' 79 570 (- 5)]"
    by (simp add: negative_radius_widget_fields)
  show "selectedAreas (state_of (redrawScheme negative_radius_widget)) =
      selectedAreas negative_radius_widget"
    by (simp add: redrawScheme_fields)
  show "raised (redrawScheme negative_radius_widget) = Some IndexSizeError"
    by (simp add: raised_redrawScheme negative_radius_widget_fields Area_def)
  show "painted (state_of (redrawScheme negative_radius_widget)) =
       painted negative_radius_widget @
       [ClearRect 0 0 460 660,
        FillRect ''#fff'' 0 0 460 660,
        DrawImage 30 30,
        FillText ''1'' 188 195 ''12px Arial'' ''#555555'',
        FillText ''1'' 79 570 ''12px Arial'' ''#555555'']"
    by (simp add: redrawScheme_painted negative_radius_widget_fields Area_def strokes_def
        renderTexts_def readme_labels_def default_config_def canvas_dimension_def)
qed

text \<open>
  Claim C9, amended. \<^verbatim>\<open>redrawScheme\<close> leaves the selected areas as they were, also
  when it is repeated any number of times. The pass paints, after the clearing, the
  background, the image and the texts, one circle for each selected area, at its centre
  and with its radius, up to the first selected area whose radius is negative; so when no
  selected area has a negative radius the pass completes and every selected area is
  stroked again.
\<close>

theorem redrawScheme_keeps_selection:
  "selectedAreas (state_of (redrawScheme s)) = selectedAreas s
   \<and> selectedAreas (((\<lambda>s. state_of (redrawScheme s)) ^^ k) s) = selectedAreas s
   \<and> painted (state_of (redrawScheme s)) =
        painted s @
        [ClearRect 0 0 (canvas_width s) (canvas_height s),
         FillRect (bgColor (config s)) 0 0
           (canvas_dimension 300 (schemeImg_width s + padding (config s) * 2))
           (canvas_dimension 150 (schemeImg_height s + padding (config s) * 2)),
         DrawImage (padding (config s)) (padding (config s))] @
        map (\<lambda>l. FillText (sLabel l) (label_x1 l + padding (config s))
                   (label_y1 l + padding (config s))
                   (fontSize (config s) @ '' '' @ fontFamily (config s)) (fontColor (config s)))
          (labels s) @
        map (\<lambda>a. StrokeArc (area_x a) (area_y a) (area_radius a) 1 (areaColor (config s)))
          (takeWhile (\<lambda>a. 0 \<le> area_radius a) (selectedAreas s))
   \<and> ((\<forall>a\<in>set (selectedAreas s). 0 \<le> area_radius a) \<longrightarrow>
        raised (redrawScheme s) = None \<and>
        painted (state_of (redrawScheme s)) =
          painted s @
          [ClearRect 0 0 (canvas_width s) (canvas_height s),
           FillRect (bgColor (config s)) 0 0
             (canvas_dimension 300 (schemeImg_width s + padding (config s) * 2))
             (canvas_dimension 150 (schemeImg_height s + padding (config s) * 2)),
           DrawImage (padding (config s)) (padding (config s))] @
          map (\<lambda>l. FillText (sLabel l) (label_x1 l + padding (config s))
                     (label_y1 l + padding (config s))
                     (fontSize (config s) @ '' '' @ fontFamily (config s)) (fontColor (config s)))
            (labels s) @
          map (\<lambda>a. StrokeArc (area_x a) (area_y a) (area_radius a) 1 (areaColor (config s)))
            (selectedAreas s))"
proof (intro conjI impI)
  show "selectedAreas (state_of (redrawScheme s)) = selectedAreas s"
    by (simp add: redrawScheme_fields)
  show "selectedAreas (((\<lambda>s. state_of (redrawScheme s)) ^^ k) s) = selectedAreas s"
    by (rule redraws_selectedAreas)
  show "painted (state_of (redrawScheme s)) =
        painted s @
        [ClearRect 0 0 (canvas_width s) (canvas_height s),
         FillRect (bgColor (config s)) 0 0
           (canvas_dimension 300 (schemeImg_width s + padding (config s) * 2))
           (canvas_dimension 150 (schemeImg_height s + padding (config s) * 2)),
         DrawImage (padding (config s)) (padding (config s))] @
        map (\<lambda>l. FillText (sLabel l) (label_x1 l + padding (config s))
                   (label_y1 l + padding (config s))
                   (fontSize (config s) @ '' '' @ fontFamily (config s)) (fontColor (config s)))
          (labels s) @
        map (\<lambda>a. StrokeArc (area_x a) (area_y a) (area_radius a) 1 (areaColor (config s)))
          (takeWhile (\<lambda>a. 0 \<le> area_radius a) (selectedAreas s))"
    by (simp add: redrawScheme_painted renderTexts_def strokes_def)
next
  assume nonneg: "\<forall>a\<in>set (selectedAreas s). 0 \<le> area_radius a"
  then show "raised (redrawScheme s) = None"
    by (simp add: raised_redrawScheme)
  from nonneg have all: "takeWhile (\<lambda>a. 0 \<le> area_radius a) (selectedAreas s) = selectedAreas s"
    by simp
  show "painted (state_of (redrawScheme s)) =
          painted s @
          [ClearRect 0 0 (canvas_width s) (canvas_height s),
           FillRect (bgColor (config s)) 0 0
             (canvas_dimension 300 (schemeImg_width s + padding (config s) * 2))
             (canvas_dimension 150 (schemeImg_height s + padding (config s) * 2)),
           DrawImage (padding (config s)) (padding (config s))] @
          map (\<lambda>l. FillText (sLabel l) (label_x1 l + padding (config s))
                     (label_y1 l + padding (config s))
                     (fontSize (config s) @ '' '' @ fontFamily (config s)) (fontColor (config s)))
            (labels s) @
          map (\<lambda>a. StrokeArc (area_x a) (area_y a) (area_radius a) 1 (areaColor (config s)))
            (selectedAreas s)"
    by (simp add: redrawScheme_painted renderTexts_def strokes_def all)
qed

subsection \<open>The scale option\<close>

definition set_scale :: "int \<Rightarrow> scheme \<Rightarrow> scheme" where
  "set_scale k s = s\<lparr> config := (config s)\<lparr> scale := k \<rparr> \<rparr>"

fun map_outcome :: "('a \<Rightarrow> 'b) \<Rightarrow> 'a outcome \<Rightarrow> 'b outcome" where
  "map_outcome f (Done s) = Done (f s)"
| "map_outcome f (Raised e s) = Raised e (f s)"

fun run :: "event list \<Rightarrow> scheme \<Rightarrow> scheme" where
  "run [] s = s"
| "run (e # es) s = run es (state_of (handle e s))"

lemma state_of_map_outcome: "state_of (map_outcome f r) = f (state_of r)"
  by (cases r) simp_all

lemma drawArea_set_scale:
  "drawArea x y r (set_scale k s) = map_outcome (set_scale k) (drawArea x y r s)"
  by (simp add: drawArea_def set_scale_def Let_def)

lemma drawSelectedAreas_loop_set_scale:
  "drawSelectedAreas_loop as (set_scale k s) =
     map_outcome (set_scale k) (drawSelectedAreas_loop as s)"
proof (induction as arbitrary: s)
  case Nil
  show ?case by simp
next
  case (Cons a as)
  show ?case
    by (cases "drawArea (area_x a) (area_y a) (area_radius a) s")
      (simp_all add: drawArea_set_scale Cons)
qed

lemma renderAreas_scale: "renderAreas (c\<lparr> scale := k \<rparr>) ls = renderAreas c ls"
  by (simp add: renderAreas_def)

lemma renderTexts_scale: "renderTexts (c\<lparr> scale := k \<rparr>) ls = renderTexts c ls"
  by (simp add: renderTexts_def)

lemma beforeSelected_set_scale: "beforeSelected (set_scale k s) = set_scale k (beforeSelected s)"
  by (simp add: beforeSelected_def set_scale_def renderAreas_scale renderTexts_scale)

lemma drawScheme_set_scale:
  "drawScheme (set_scale k s) = map_outcome (set_scale k) (drawScheme s)"
proof -
  have "selectedAreas (set_scale k (beforeSelected s)) = selectedAreas (beforeSelected s)"
    by (simp add: set_scale_def)
  then show ?thesis
    by (simp add: drawScheme_eq beforeSelected_set_scale drawSelectedAreas_def
        drawSelectedAreas_loop_set_scale)
qed

lemma redrawScheme_set_scale:
  "redrawScheme (set_scale k s) = map_outcome (set_scale k) (redrawScheme s)"
proof -
  have "(set_scale k s)\<lparr> painted := p, areas := [] \<rparr> = set_scale k (s\<lparr> painted := p, areas := [] \<rparr>)"
    for p by (simp add: set_scale_def)
  moreover have "painted (set_scale k s) = painted s" "canvas_width (set_scale k s) = canvas_width s"
    "canvas_height (set_scale k s) = canvas_height s"
    by (simp_all add: set_scale_def)
  ultimately show ?thesis
    by (simp add: redrawScheme_def Let_def drawScheme_set_scale)
qed

lemma toggled_set_scale: "toggled n ps (set_scale k s) = set_scale k (toggled n ps s)"
  by (simp add: toggled_def reselected_def toggle_func_def set_scale_def)

lemma reselected_set_scale: "reselected n (set_scale k s) = set_scale k (reselected n s)"
  by (simp add: reselected_def set_scale_def)

lemma querySelectorAll_parents_set_scale:
  "querySelectorAll_parents n (set_scale k s) = querySelectorAll_parents n s"
  by (simp add: querySelectorAll_parents_def set_scale_def)

lemma toggleHighlight_set_scale:
  "toggleHighlight n (set_scale k s) = map_outcome (set_scale k) (toggleHighlight n s)"
proof -
  have "areas (set_scale k s) = areas s" by (simp add: set_scale_def)
  then show ?thesis
    by (simp add: toggleHighlight_eq toggled_set_scale reselected_set_scale
        querySelectorAll_parents_set_scale redrawScheme_set_scale split: option.splits)
qed

lemma areaClicked_loop_set_scale:
  "areaClicked_loop ex ey i (set_scale k s) =
     map_outcome (set_scale k) (areaClicked_loop ex ey i s)"
proof (induction ex ey i s rule: areaClicked_loop.induct)
  case (1 ex ey i s)
  have a: "areas (set_scale k s) = areas s" by (simp add: set_scale_def)
  show ?case
  proof (cases "i < length (areas s)")
    case False
    then show ?thesis
      by (simp add: areaClicked_loop.simps [of ex ey i] a)
  next
    case True
    show ?thesis
    proof (cases "coordsInArea ex ey (areas s ! i)")
      case False
      with True "1.IH"(2) show ?thesis
        by (simp add: areaClicked_loop.simps [of ex ey i] a)
    next
      case hit: True
      show ?thesis
      proof (cases "toggleHighlight (area_name (areas s ! i)) s")
        case (Done s')
        with "1.IH"(1) [OF True refl hit Done] True hit show ?thesis
          by (simp add: areaClicked_loop.simps [of ex ey i] a toggleHighlight_set_scale)
      next
        case (Raised e s')
        with True hit show ?thesis
          by (simp add: areaClicked_loop.simps [of ex ey i] a toggleHighlight_set_scale)
      qed
    qed
  qed
qed

lemma areaHovered_set_scale: "areaHovered ex ey (set_scale k s) = set_scale k (areaHovered ex ey s)"
  by (simp add: areaHovered_def set_scale_def split: option.splits)

lemma handle_set_scale: "handle e (set_scale k s) = map_outcome (set_scale k) (handle e s)"
  by (cases e)
    (simp_all add: drawScheme_set_scale areaClicked_def areaClicked_loop_set_scale
      areaHovered_set_scale itemClicked_def toggleHighlight_set_scale)

lemma run_set_scale: "run es (set_scale k s) = set_scale k (run es s)"
  by (induction es arbitrary: s) (simp_all add: handle_set_scale state_of_map_outcome)

lemma Scheme_scale:
  "Scheme doc lbls (Some (p\<lparr> p_scale := v \<rparr>)) =
     set_scale (override v (scale default_config)) (Scheme doc lbls (Some p))"
  by (simp add: Scheme_def set_scale_def setConfig_def)

text \<open>
  Claim C10. Changing the stored scale commutes with every handler, exceptions included,
  and so with every sequence of events; two widgets constructed from parameters that
  differ in \<^verbatim>\<open>scale\<close> only are, after the same events, equal but for the stored scale.
  The canvas size, the areas, the selected and hovered areas, the painted calls and the
  class names do not depend on it.
\<close>

theorem scale_is_never_read:
  "handle e (set_scale k s) = map_outcome (set_scale k) (handle e s)
   \<and> run es (set_scale k s) = set_scale k (run es s)
   \<and> run es (Scheme doc lbls (Some (p\<lparr> p_scale := v \<rparr>))) =
       set_scale (override v (scale default_config)) (run es (Scheme doc lbls (Some p)))
   \<and> canvas_width (set_scale k s) = canvas_width s
   \<and> canvas_height (set_scale k s) = canvas_height s
   \<and> areas (set_scale k s) = areas s
   \<and> selectedAreas (set_scale k s) = selectedAreas s
   \<and> hoveredArea (set_scale k s) = hoveredArea s
   \<and> painted (set_scale k s) = painted s
   \<and> element_className (set_scale k s) = element_className s
   \<and> canvas_className (set_scale k s) = canvas_className s"
  by (simp add: handle_set_scale Scheme_scale run_set_scale) (simp add: set_scale_def)

subsection \<open>All areas of a name, or none\<close>

definition all_or_none :: "string \<Rightarrow> scheme \<Rightarrow> bool" where
  "all_or_none n s =
     ((\<forall>a\<in>set (areas s). area_name a = n \<longrightarrow> a \<in> set (selectedAreas s)) \<or>
      (\<forall>a\<in>set (areas s). area_name a = n \<longrightarrow> a \<notin> set (selectedAreas s)))"

lemma rendered_all_or_none:
  assumes "rendered s"
  shows "all_or_none n s"
proof (cases "\<exists>a\<in>set (selectedAreas s). area_name a = n")
  case True
  then obtain a where a: "a \<in> set (selectedAreas s)" "area_name a = n" by auto
  from assms have "\<forall>a\<in>set (selectedAreas s). \<forall>b\<in>set (areas s).
         area_name b = area_name a \<longrightarrow> b \<in> set (selectedAreas s)"
    by (simp add: rendered_def)
  with a have "\<forall>b\<in>set (areas s). area_name b = n \<longrightarrow> b \<in> set (selectedAreas s)"
    by auto
  then show ?thesis by (simp add: all_or_none_def)
next
  case False
  then have "\<forall>b\<in>set (areas s). area_name b = n \<longrightarrow> b \<notin> set (selectedAreas s)"
    by auto
  then show ?thesis by (simp add: all_or_none_def)
qed

text \<open>
  Claim C3. In every reachable widget, for every name, either all areas of the current
  array that bear the name are among the selected areas or none of them is; the widget
  after a \<^verbatim>\<open>toggleHighlight\<close> is reachable and has the same property; and a toggle
  of a name that some area bears deselects all areas of that name if one was selected and
  selects all of them otherwise. An area is among the selected ones when an area with the
  same fields is.
\<close>

theorem selection_all_or_none:
  assumes "reachable s"
  shows "all_or_none n s \<and> all_or_none n (state_of (toggleHighlight m s))
    \<and> reachable (state_of (toggleHighlight m s))
    \<and> (if \<forall>a\<in>set (areas s). area_name a \<noteq> m
        then selectedAreas (state_of (toggleHighlight m s)) = selectedAreas s
        else if \<exists>a\<in>set (selectedAreas s). area_name a = m
        then \<forall>a\<in>set (areas (state_of (toggleHighlight m s))).
               area_name a = m \<longrightarrow> a \<notin> set (selectedAreas (state_of (toggleHighlight m s)))
        else \<forall>a\<in>set (areas (state_of (toggleHighlight m s))).
               area_name a = m \<longrightarrow> a \<in> set (selectedAreas (state_of (toggleHighlight m s))))"
proof (intro conjI)
  from assms have r: "rendered s" by (rule reachable_rendered)
  then show "all_or_none n s" by (rule rendered_all_or_none)
  from r have "rendered (state_of (toggleHighlight m s))" by (rule rendered_toggleHighlight)
  then show "all_or_none n (state_of (toggleHighlight m s))" by (rule rendered_all_or_none)
  from assms show "reachable (state_of (toggleHighlight m s))"
    using reachable.item_click [of s m] by (simp add: itemClicked_def)
  let ?t = "state_of (toggleHighlight m s)"
  show "if \<forall>a\<in>set (areas s). area_name a \<noteq> m
        then selectedAreas ?t = selectedAreas s
        else if \<exists>a\<in>set (selectedAreas s). area_name a = m
        then \<forall>a\<in>set (areas ?t). area_name a = m \<longrightarrow> a \<notin> set (selectedAreas ?t)
        else \<forall>a\<in>set (areas ?t). area_name a = m \<longrightarrow> a \<in> set (selectedAreas ?t)"
  proof (cases "\<forall>a\<in>set (areas s). area_name a \<noteq> m")
    case True
    then show ?thesis
      by (simp add: toggleHighlight_selectedAreas filter_empty_conv)
  next
    case False
    then have found: "filter (\<lambda>a. area_name a = m) (areas s) \<noteq> []"
      by (simp add: filter_empty_conv)
    then have "areas s \<noteq> []" by auto
    with r have "areas s = renderAreas (config s) (labels s)"
      by (auto simp: rendered_def)
    with found have a': "areas ?t = areas s"
      by (simp add: toggleHighlight_areas)
    show ?thesis
    proof (cases "\<exists>a\<in>set (selectedAreas s). area_name a = m")
      case True
      then have "filter (\<lambda>a. area_name a = m) (selectedAreas s) \<noteq> []"
        by (simp add: filter_empty_conv)
      with found have sel: "selectedAreas ?t = filter (\<lambda>a. area_name a \<noteq> m) (selectedAreas s)"
        by (simp add: toggleHighlight_selectedAreas)
      have "\<forall>a\<in>set (areas ?t). area_name a = m \<longrightarrow> a \<notin> set (selectedAreas ?t)"
        by (simp add: sel)
      then show ?thesis by (simp only: False True if_False if_True)
    next
      case none: False
      then have "filter (\<lambda>a. area_name a = m) (selectedAreas s) = []"
        by (simp add: filter_empty_conv)
      with found have sel: "selectedAreas ?t = selectedAreas s @ filter (\<lambda>a. area_name a = m) (areas s)"
        by (simp add: toggleHighlight_selectedAreas)
      have "\<forall>a\<in>set (areas ?t). area_name a = m \<longrightarrow> a \<in> set (selectedAreas ?t)"
        by (simp add: sel a')
      then show ?thesis by (simp only: False none if_False)
    qed
  qed
qed

subsection \<open>Clicks on the canvas\<close>

fun toggleEach :: "string list \<Rightarrow> scheme \<Rightarrow> scheme" where
  "toggleEach [] s = s"
| "toggleEach (n # ns) s = toggleEach ns (state_of (toggleHighlight n s))"

lemma renderAreas_radius: "a \<in> set (renderAreas c ls) \<Longrightarrow> area_radius a = areaRadius c"
  by (auto simp: renderAreas_def Area_def)

lemma renderAreas_hit:
  "a \<in> set (renderAreas c ls) \<Longrightarrow> coordsInArea ex ey a \<Longrightarrow> 0 \<le> areaRadius c"
  by (auto simp: renderAreas_def Area_def coordsInArea_def inRange_def)

lemma toggleHighlight_Done:
  assumes r: "rendered s" and nonneg: "0 \<le> areaRadius (config s)" and plain: "attribute_text n"
  shows "\<exists>s'. toggleHighlight n s = Done s'"
proof (cases "filter (\<lambda>a. area_name a = n) (areas s) = []")
  case True
  then show ?thesis by (simp add: toggleHighlight_eq)
next
  case False
  then have "areas s \<noteq> []" by auto
  with r have ar: "areas s = renderAreas (config s) (labels s)"
    and sub: "set (selectedAreas s) \<subseteq> set (areas s)"
    by (auto simp: rendered_def)
  let ?ps = "attribute_parents n (list_items s)"
  from plain have q: "querySelectorAll_parents n s = Some ?ps"
    by (simp add: querySelectorAll_parents_def)
  have "set (selectedAreas (toggled n ?ps s)) \<subseteq> set (areas s)"
    using sub by (auto simp: toggled_fields reselected_def)
  then have "\<forall>a\<in>set (selectedAreas (toggled n ?ps s)). 0 \<le> area_radius a"
    using ar nonneg renderAreas_radius [of _ "config s" "labels s"] by auto
  then have "\<exists>s'. redrawScheme (toggled n ?ps s) = Done s'"
    by (simp add: redrawScheme_Done)
  with False q show ?thesis by (simp add: toggleHighlight_eq)
qed

text \<open>
  Where every area name is plain text, a click completes and is the sequence of
  \<^verbatim>\<open>toggleHighlight\<close> calls with the names of the areas whose box contains the point,
  in the order of the area array.
\<close>

lemma areaClicked_loop_toggleEach:
  "rendered s \<Longrightarrow> \<forall>a\<in>set (areas s). attribute_text (area_name a) \<Longrightarrow>
   areaClicked_loop ex ey i s =
     Done (toggleEach (map area_name (filter (coordsInArea ex ey) (drop i (areas s)))) s)"
proof (induction ex ey i s rule: areaClicked_loop.induct)
  case (1 ex ey i s)
  note r = "1.prems"(1) and plain = "1.prems"(2)
  show ?case
  proof (cases "i < length (areas s)")
    case False
    then show ?thesis by (simp add: areaClicked_loop.simps [of ex ey i s])
  next
    case True
    then have dr: "drop i (areas s) = areas s ! i # drop (Suc i) (areas s)"
      by (simp add: Cons_nth_drop_Suc)
    show ?thesis
    proof (cases "coordsInArea ex ey (areas s ! i)")
      case False
      with True "1.IH"(2) [OF True refl False r plain] show ?thesis
        by (simp add: areaClicked_loop.simps [of ex ey i s] dr)
    next
      case hit: True
      let ?a = "areas s ! i"
      from True have mem: "?a \<in> set (areas s)" by simp
      then have "areas s \<noteq> []" by auto
      with r have ar: "areas s = renderAreas (config s) (labels s)"
        by (auto simp: rendered_def)
      from mem hit ar have "0 \<le> areaRadius (config s)"
        using renderAreas_hit [of ?a "config s" "labels s" ex ey] by simp
      moreover from mem plain have "attribute_text (area_name ?a)" by simp
      ultimately obtain s' where d: "toggleHighlight (area_name ?a) s = Done s'"
        using toggleHighlight_Done [of s "area_name ?a"] r by auto
      then have s': "s' = state_of (toggleHighlight (area_name ?a) s)" by simp
      have a': "areas s' = areas s"
        unfolding s' using ar by (simp add: toggleHighlight_areas)
      have r': "rendered s'"
        unfolding s' using r by (rule rendered_toggleHighlight)
      from plain a' have "\<forall>a\<in>set (areas s'). attribute_text (area_name a)" by simp
      from "1.IH"(1) [OF True refl hit d r' this] True hit d show ?thesis
        by (simp add: areaClicked_loop.simps [of ex ey i s] dr a')
    qed
  qed
qed

lemma areaClicked_plain_names:
  assumes "reachable s" and "\<forall>a\<in>set (areas s). attribute_text (area_name a)"
  shows "areaClicked ex ey s =
           Done (toggleEach (map area_name (filter (coordsInArea ex ey) (areas s))) s)"
proof -
  from assms(1) have "rendered s" by (rule reachable_rendered)
  then show ?thesis
    using areaClicked_loop_toggleEach [of s ex ey 0] assms(2) by (simp add: areaClicked_def)
qed

text \<open>
  Two labels at the same point, the first named \<open>a"b\<close>, the second \<open>c\<close>, each with an
  item in the list. The selector built from the first name,
  \<^verbatim>\<open>[data-part-number="a"b"]\<close>, is not valid, and \<^verbatim>\<open>querySelectorAll\<close> throws a
  SyntaxError for it.
\<close>

definition quoted_name :: string where
  "quoted_name = [CHR ''a'', CHR 0x22, CHR ''b'']"

definition quoted_labels :: "label list" where
  "quoted_labels =
     [\<lparr> sLabel = quoted_name, label_x1 = 158, label_y1 = 165 \<rparr>,
      \<lparr> sLabel = ''c'', label_x1 = 158, label_y1 = 165 \<rparr>]"

definition quoted_document :: document where
  "quoted_document =
     readme_document\<lparr> doc_list_items := [(quoted_name, 0), (''c'', 1)],
                       doc_other_selectors := (\<lambda>n c cn. None) \<rparr>"

definition quoted_widget :: scheme where
  "quoted_widget = state_of (drawScheme (Scheme quoted_document quoted_labels None))"

lemma reachable_quoted_widget: "reachable quoted_widget"
  unfolding quoted_widget_def by (rule reachable.image_loaded)

lemma quoted_widget_fields:
  "areas quoted_widget = [Area quoted_name 188 195 10, Area ''c'' 188 195 10]"
  "selectedAreas quoted_widget = []"
  "other_selectors quoted_widget = (\<lambda>n c cn. None)"
  by (simp_all add: quoted_widget_def drawScheme_fields Scheme_def quoted_document_def
      readme_document_def quoted_labels_def renderAreas_def default_config_def)

lemma toggleHighlight_quoted_name:
  "toggleHighlight quoted_name quoted_widget =
     Raised SyntaxError (reselected quoted_name quoted_widget)"
proof -
  have "\<not> attribute_text quoted_name"
    by (simp add: attribute_text_def quoted_name_def)
  then have "querySelectorAll_parents quoted_name quoted_widget = None"
    by (simp add: querySelectorAll_parents_def quoted_widget_fields)
  then show ?thesis
    by (simp add: toggleHighlight_eq quoted_widget_fields Area_def)
qed

text \<open>
  Claim C5, at this input. A click at \<open>(188, 195)\<close> lies in the boxes of both areas.
  The click toggles the first name, whose areas become selected; the SyntaxError then
  leaves the handler, before the list and the canvas are touched and before the second
  area is reached, so \<open>c\<close> is not toggled.
\<close>

theorem areaClicked_quoted_name:
  "reachable quoted_widget
   \<and> filter (coordsInArea 188 195) (areas quoted_widget) =
       [Area quoted_name 188 195 10, Area ''c'' 188 195 10]
   \<and> raised (areaClicked 188 195 quoted_widget) = Some SyntaxError
   \<and> selectedAreas (state_of (areaClicked 188 195 quoted_widget)) =
       [Area quoted_name 188 195 10]
   \<and> painted (state_of (areaClicked 188 195 quoted_widget)) = painted quoted_widget
   \<and> element_className (state_of (areaClicked 188 195 quoted_widget)) =
       element_className quoted_widget"
proof -
  have hit: "coordsInArea 188 195 (Area quoted_name 188 195 10)"
    "coordsInArea 188 195 (Area ''c'' 188 195 10)"
    by (simp_all add: coordsInArea_def inRange_def Area_def)
  have name: "area_name (Area quoted_name 188 195 10) = quoted_name"
    by (simp add: Area_def)
  have click: "areaClicked 188 195 quoted_widget =
      Raised SyntaxError (reselected quoted_name quoted_widget)"
    by (simp add: areaClicked_def areaClicked_loop.simps [of 188 195 0 quoted_widget]
        quoted_widget_fields hit name toggleHighlight_quoted_name)
  have "selectedAreas (reselected quoted_name quoted_widget) = [Area quoted_name 188 195 10]"
    by (simp add: reselected_def quoted_widget_fields Area_def quoted_name_def)
  with click hit reachable_quoted_widget show ?thesis
    by (simp add: quoted_widget_fields reselected_fields)
qed

subsection \<open>Toggling twice\<close>



















subsection \<open>The example, with part 1 selected\<close>

lemma readme_widget_canvas:
  "canvas_width readme_widget = 460" "canvas_height readme_widget = 660"
  "schemeImg_width readme_widget = 400" "schemeImg_height readme_widget = 600"
  by (simp_all add: readme_widget_def drawScheme_fields Scheme_def readme_document_def
      default_config_def canvas_dimension_def)

definition selected_widget :: scheme where
  "selected_widget = state_of (itemClicked ''1'' readme_widget)"

lemma selected_widget_fields:
  "areas selected_widget = [Area ''1'' 188 195 10, Area ''1'' 79 570 10]"
  "selectedAreas selected_widget = [Area ''1'' 188 195 10, Area ''1'' 79 570 10]"
  "labels selected_widget = readme_labels"
  "config selected_widget = default_config"
  "canvas_width selected_widget = 460" "canvas_height selected_widget = 660"
  "schemeImg_width selected_widget = 400" "schemeImg_height selected_widget = 600"
  by (simp_all add: selected_widget_def itemClicked_def toggleHighlight_eq readme_widget_fields
      readme_widget_canvas redrawScheme_fields toggled_fields reselected_def
      querySelectorAll_parents_def attribute_text_def Area_def renderAreas_def
      readme_labels_def default_config_def canvas_dimension_def)

text \<open>The README widget with part \<open>1\<close> selected: both circles are stroked again.\<close>

theorem redrawScheme_keeps_selection_witness:
  "selectedAreas selected_widget = [Area ''1'' 188 195 10, Area ''1'' 79 570 10]
   \<and> selectedAreas (state_of (redrawScheme selected_widget)) = selectedAreas selected_widget
   \<and> raised (redrawScheme selected_widget) = None
   \<and> painted (state_of (redrawScheme selected_widget)) =
       painted selected_widget @
       [ClearRect 0 0 460 660,
        FillRect ''#fff'' 0 0 460 660,
        DrawImage 30 30,
        FillText ''1'' 188 195 ''12px Arial'' ''#555555'',
        FillText ''1'' 79 570 ''12px Arial'' ''#555555'',
        StrokeArc 188 195 10 1 ''#a52a2a'',
        StrokeArc 79 570 10 1 ''#a52a2a'']"
  using redrawScheme_keeps_selection [of selected_widget 1]
  by (simp add: selected_widget_fields Area_def readme_labels_def default_config_def
      canvas_dimension_def)

text \<open>The README widget, reachable by the first render, before and after a toggle of \<open>1\<close>.\<close>

theorem selection_all_or_none_witness:
  "reachable readme_widget
   \<and> all_or_none ''1'' readme_widget
   \<and> selectedAreas (state_of (toggleHighlight ''1'' readme_widget)) =
       [Area ''1'' 188 195 10, Area ''1'' 79 570 10]
   \<and> all_or_none ''1'' (state_of (toggleHighlight ''1'' readme_widget))"
proof -
  note t = selection_all_or_none [OF reachable_readme_widget, of "''1''" "''1''"]
  have "selectedAreas (state_of (toggleHighlight ''1'' readme_widget)) =
      [Area ''1'' 188 195 10, Area ''1'' 79 570 10]"
    by (simp add: toggleHighlight_selectedAreas readme_widget_fields Area_def)
  with t reachable_readme_widget show ?thesis by simp
qed


end
